theory Spec2Isabelle
  imports Complex_Main
begin

text \<open>
  A model of the book catalog backend: the Token Guard, the Auth Service (register, login)
  and the Catalog Service (list, create, update, delete) over a store of users and books,
  with the statements about them settled one by one (C1 to C10).
\<close>

section \<open>JavaScript values and string primitives\<close>

text \<open>
  Request bodies are parsed JSON. A field that is absent from an object reads as
  \<open>undefined\<close>, which is \<open>None\<close> here. Strings are sequences of 8-bit characters, read
  as the code points from U+0000 to U+00FF; a number carries the value of the double that
  the literal parses to.
\<close>

datatype json =
    JNull
  | JBool bool
  | JNum rat
  | JStr string
  | JArr "json list"
  | JObj "(string \<times> json) list"

text \<open>JavaScript truthiness, as tested by \<open>!x\<close> and \<open>x || d\<close>.\<close>

fun truthy :: "json option \<Rightarrow> bool" where
  "truthy None = False"
| "truthy (Some JNull) = False"
| "truthy (Some (JBool b)) = b"
| "truthy (Some (JNum n)) = (n \<noteq> 0)"
| "truthy (Some (JStr s)) = (s \<noteq> [])"
| "truthy (Some (JArr xs)) = True"
| "truthy (Some (JObj kvs)) = True"

text \<open>\<open>String.prototype.split(sep)\<close> for a one-character separator.\<close>

fun split :: "char \<Rightarrow> string \<Rightarrow> string list" where
  "split sep [] = [[]]"
| "split sep (c # cs) =
     (if c = sep then [] # split sep cs
      else (case split sep cs of
              [] \<Rightarrow> [[c]]
            | w # ws \<Rightarrow> (c # w) # ws))"

text \<open>Array destructuring \<open>[a, b] = xs\<close>: a missing position is \<open>undefined\<close>.\<close>

fun nth_opt :: "'a list \<Rightarrow> nat \<Rightarrow> 'a option" where
  "nth_opt [] n = None"
| "nth_opt (x # xs) 0 = Some x"
| "nth_opt (x # xs) (Suc n) = nth_opt xs n"

text \<open>
  White space as removed by \<open>String.prototype.trim\<close> and skipped by \<open>parseInt\<close>:
  TAB, LF, VT, FF, CR, SPACE and NBSP are the ones among the 8-bit characters.
\<close>

definition is_space :: "char \<Rightarrow> bool" where
  "is_space c = (let n = (of_char c :: nat) in (9 \<le> n \<and> n \<le> 13) \<or> n = 32 \<or> n = 160)"

definition trim :: "string \<Rightarrow> string" where
  "trim s = rev (dropWhile is_space (rev (dropWhile is_space s)))"

text \<open>
  \<open>String.prototype.toLowerCase\<close>. Among the code points below 256 the capitals are
  \<open>A\<close> to \<open>Z\<close> and U+00C0 to U+00DE without the multiplication sign U+00D7; the small
  letter of each is 32 further on.
\<close>

definition lower_char :: "char \<Rightarrow> char" where
  "lower_char c =
     (let n = (of_char c :: nat)
      in if (65 \<le> n \<and> n \<le> 90) \<or> (192 \<le> n \<and> n \<le> 222 \<and> n \<noteq> 215)
         then char_of (n + 32) else c)"

definition toLowerCase :: "string \<Rightarrow> string" where
  "toLowerCase s = map lower_char s"

text \<open>
  The numbers of the listing are doubles. A double holds every integer of magnitude below
  \<open>2^53 = 9007199254740992\<close> exactly (\<open>Number.isSafeInteger\<close>), and a sum or a
  product whose operands and result stay in that range is the exact one. \<open>Exact n\<close> is such a
  number. \<open>Rounded n\<close> is the double that the engine rounds the integer \<open>n\<close> of
  magnitude at least \<open>2^53\<close> to, an infinity included: only its sign is used here, and
  what is computed from it is left open.
\<close>

datatype number = NaN | Exact int | Rounded int

definition isSafeInteger :: "int \<Rightarrow> bool" where
  "isSafeInteger n = (- 9007199254740992 < n \<and> n < 9007199254740992)"

definition to_number :: "int \<Rightarrow> number" where
  "to_number n = (if isSafeInteger n then Exact n else Rounded n)"

text \<open>
  \<open>parseInt(s)\<close> with no radix: leading white space is skipped, then an optional sign,
  then an optional \<open>0x\<close>/\<open>0X\<close> prefix that selects radix 16, then the longest run of
  digits of the radix. No digit at all gives \<open>NaN\<close>; otherwise the result is the
  number of the signed integer that the digits denote.
\<close>

definition digit_val :: "char \<Rightarrow> nat option" where
  "digit_val c =
     (let n = (of_char c :: nat) in
      if 48 \<le> n \<and> n \<le> 57 then Some (n - 48)
      else if 97 \<le> n \<and> n \<le> 122 then Some (n - 87)
      else if 65 \<le> n \<and> n \<le> 90 then Some (n - 55)
      else None)"

definition is_digit :: "nat \<Rightarrow> char \<Rightarrow> bool" where
  "is_digit radix c = (case digit_val c of None \<Rightarrow> False | Some d \<Rightarrow> d < radix)"

fun digits_val :: "nat \<Rightarrow> int \<Rightarrow> string \<Rightarrow> int" where
  "digits_val radix acc [] = acc"
| "digits_val radix acc (c # cs) =
     digits_val radix
       (acc * int radix + (case digit_val c of None \<Rightarrow> 0 | Some d \<Rightarrow> int d)) cs"

definition parse_digits :: "nat \<Rightarrow> string \<Rightarrow> int option" where
  "parse_digits radix s =
     (let z = takeWhile (is_digit radix) s in
      if z = [] then None else Some (digits_val radix 0 z))"

definition strip_sign :: "string \<Rightarrow> int \<times> string" where
  "strip_sign s =
     (case s of
        [] \<Rightarrow> (1, [])
      | c # cs \<Rightarrow> if c = CHR ''-'' then (- 1, cs)
                  else if c = CHR ''+'' then (1, cs)
                  else (1, s))"

definition strip_hex :: "string \<Rightarrow> nat \<times> string" where
  "strip_hex s =
     (case s of
        a # b # cs \<Rightarrow> if a = CHR ''0'' \<and> (b = CHR ''x'' \<or> b = CHR ''X'') then (16, cs) else (10, s)
      | _ \<Rightarrow> (10, s))"

definition parseInt_str :: "string \<Rightarrow> number" where
  "parseInt_str s =
     (let (sign, s1) = strip_sign (dropWhile is_space s);
          (radix, s2) = strip_hex s1
      in case parse_digits radix s2 of
           None \<Rightarrow> NaN
         | Some n \<Rightarrow> to_number (sign * n))"

text \<open>A query parameter is absent or a string; \<open>parseInt(undefined)\<close> is \<open>NaN\<close>.\<close>

definition parseInt :: "string option \<Rightarrow> number" where
  "parseInt q = (case q of None \<Rightarrow> NaN | Some s \<Rightarrow> parseInt_str s)"

text \<open>\<open>x || d\<close> on a number: \<open>NaN\<close> and zero are falsy.\<close>

definition or_default :: "number \<Rightarrow> int \<Rightarrow> number" where
  "or_default x d =
     (case x of
        NaN \<Rightarrow> Exact d
      | Exact k \<Rightarrow> if k = 0 then Exact d else Exact k
      | Rounded k \<Rightarrow> Rounded k)"

text \<open>
  \<open>Math.max(x, k)\<close> for a small integer \<open>k\<close>: a rounded negative number is below
  \<open>k\<close>, a rounded positive number above it.
\<close>

definition Math_max :: "number \<Rightarrow> int \<Rightarrow> number" where
  "Math_max x k =
     (case x of
        NaN \<Rightarrow> NaN
      | Exact n \<Rightarrow> Exact (max n k)
      | Rounded n \<Rightarrow> if n < 0 then Exact k else Rounded n)"


section \<open>Data model\<close>

text \<open>The \<open>users\<close> and \<open>books\<close> collections, with the fields of the two schemas.\<close>

record user =
  user_id :: nat
  username :: string
  email :: string
  password :: string
  role :: string
  user_createdAt :: nat
  user_updatedAt :: nat

record book =
  book_id :: nat
  title :: string
  author :: string
  year :: "rat option"
  createdAt :: nat
  updatedAt :: nat

text \<open>
  The store: both collections, the next identifier the store hands out, and whether the
  database answers at all. When it does not, every store operation rejects.
\<close>

record store =
  users :: "user list"
  books :: "book list"
  next_id :: nat
  connected :: bool

text \<open>The payload that login signs, and what \<open>jwt.verify\<close> hands back.\<close>

record token_payload =
  tok_id :: nat
  tok_role :: string

record decoded = token_payload +
  tok_iat :: nat
  tok_exp :: nat

text \<open>
  What the handlers read of a request: the \<open>Authorization\<close> header, the parsed JSON body
  (an object), the query parameters (each absent or a string) and the \<open>:id\<close> of the path.
\<close>

record request =
  authorization :: "string option"
  body :: "string \<rightharpoonup> json"
  query :: "string \<rightharpoonup> string"
  params_id :: string

section \<open>Libraries the controllers call\<close>

text \<open>
  The token library, the password hash, the store's pattern matcher and the casts that the
  object mapper applies to values that are not already of the schema's type are not part of
  the repository. They are parameters of every operation below. A result \<open>None\<close> means
  that the call throws (or its promise rejects).

  \<^item> \<open>jwt_sign payload secret expiresIn now\<close> and \<open>jwt_verify token secret now\<close>, where
    \<open>now\<close> is the clock the library reads, in whole seconds;
  \<^item> \<open>bcrypt_hash password rounds\<close> and \<open>bcrypt_compare password hash\<close>;
  \<^item> \<open>regex_i pattern\<close>: the store's \<open>$regex\<close> operator with option \<open>i\<close>, compiled to a
    test on the field's value;
  \<^item> \<open>castString\<close>, \<open>castNumber\<close>: the casts to the schema types \<open>String\<close> and
    \<open>Number\<close> of a value of another type;
  \<^item> \<open>castStringQuery\<close>: the meaning, as a query condition on a \<open>String\<close> path, of a value
    that is not a string;
  \<^item> \<open>castObjectId\<close>: the cast of a route parameter to a document identifier;
  \<^item> \<open>castUpdate\<close>: the update \<open>{title, author, year}\<close> cast and validated against the
    schema, as the change it makes to a stored book;
  \<^item> \<open>rounded_listing\<close>: the status and the JSON text that the listing answers when one
    of its numbers is outside the range in which doubles are exact integers.
\<close>

record libs =
  jwt_sign :: "token_payload \<Rightarrow> string \<Rightarrow> string \<Rightarrow> nat \<Rightarrow> string option"
  jwt_verify :: "string \<Rightarrow> string \<Rightarrow> nat \<Rightarrow> decoded option"
  bcrypt_hash :: "json option \<Rightarrow> nat \<Rightarrow> string option"
  bcrypt_compare :: "json option \<Rightarrow> string \<Rightarrow> bool option"
  regex_i :: "string \<Rightarrow> (string \<Rightarrow> bool) option"
  castString :: "json \<Rightarrow> string option"
  castNumber :: "json \<Rightarrow> rat option"
  castStringQuery :: "json option \<Rightarrow> (string \<Rightarrow> bool) option"
  castObjectId :: "string \<Rightarrow> nat option"
  castUpdate :: "json option \<Rightarrow> json option \<Rightarrow> json option \<Rightarrow> (book \<Rightarrow> book) option"
  rounded_listing :: "store \<Rightarrow> request \<Rightarrow> nat \<times> string"

section \<open>Responses\<close>

record listing =
  data :: "book list"
  page :: int
  limit :: int
  totalPages :: int
  totalItems :: int

text \<open>
  The JSON bodies the handlers send, one constructor for each shape:
  \<open>{message}\<close>, \<open>{success: false, message}\<close>, \<open>{success: true, message}\<close>,
  \<open>{success: true, data}\<close>, the listing (with \<open>success: true\<close>) whose numbers are
  all exact, \<open>{token, user: {id, username, email, role}}\<close>, \<open>{user}\<close>, and the text of
  a listing answered with a number that is not exact.
\<close>

datatype body =
    Message string
  | Failure string
  | Success string
  | BookData book
  | BookPage listing
  | LoginOk string nat string string string
  | Me decoded
  | Inexact string

text \<open>
  What a handler does with a request: it sends a response with a status, or its promise
  rejects with nothing sent (\<open>Unhandled\<close>).
\<close>

datatype outcome = Responded nat body | Unhandled

text \<open>A middleware sends a response itself or calls \<open>next()\<close> with \<open>req.user\<close> set.\<close>

datatype guard = Halt nat body | Next decoded

section \<open>Token Guard (authMiddleware.js)\<close>

text \<open>
  \<open>secret\<close> is \<open>process.env.JWT_SECRET\<close> and \<open>now\<close> the time of the request. A header
  that is absent or empty is falsy; the destructuring \<open>[scheme, token]\<close> takes the first
  two segments of the split header and drops the others.
\<close>

definition authMiddleware :: "libs \<Rightarrow> string \<Rightarrow> nat \<Rightarrow> request \<Rightarrow> guard" where
  "authMiddleware L secret now req =
     (case authorization req of
        None \<Rightarrow> Halt 401 (Message ''NO_AUTH_HEADER'')
      | Some authHeader \<Rightarrow>
          if authHeader = [] then Halt 401 (Message ''NO_AUTH_HEADER'')
          else
            (let parts = split CHR '' '' authHeader;
                 scheme = nth_opt parts 0;
                 token = nth_opt parts 1
             in if scheme \<noteq> Some ''Bearer'' \<or> token = None \<or> token = Some [] then
                  Halt 401 (Message ''MALFORMED_AUTH_HEADER'')
                else
                  (case jwt_verify L (case token of Some t \<Rightarrow> t | None \<Rightarrow> []) secret now of
                     None \<Rightarrow> Halt 401 (Message ''TOKEN_INVALID_OR_EXPIRED'')
                   | Some d \<Rightarrow> Next d)))"


section \<open>Store operations (the models User and Book)\<close>

text \<open>
  A \<open>String\<close> path of a document being saved: the value is cast, the schema's setters
  (\<open>trim\<close>, \<open>lowercase\<close>) run, and \<open>required\<close> rejects a missing or empty result.
  \<open>None\<close> is a validation error.
\<close>

definition required_string :: "libs \<Rightarrow> (string \<Rightarrow> string) \<Rightarrow> json option \<Rightarrow> string option" where
  "required_string L setters v =
     (case (case v of
              None \<Rightarrow> None
            | Some JNull \<Rightarrow> None
            | Some (JStr s) \<Rightarrow> Some (setters s)
            | Some j \<Rightarrow> map_option setters (castString L j)) of
        None \<Rightarrow> None
      | Some s \<Rightarrow> if s = [] then None else Some s)"

text \<open>An optional \<open>Number\<close> path: absent stays absent, a cast error is \<open>None\<close>.\<close>

definition optional_number :: "libs \<Rightarrow> json option \<Rightarrow> rat option option" where
  "optional_number L v =
     (case v of
        None \<Rightarrow> Some None
      | Some JNull \<Rightarrow> Some None
      | Some (JNum n) \<Rightarrow> Some (Some n)
      | Some j \<Rightarrow> map_option Some (castNumber L j))"

text \<open>The setters of \<open>userSchema.email\<close>: \<open>lowercase: true, trim: true\<close>.\<close>

definition normalize_email :: "string \<Rightarrow> string" where
  "normalize_email s = trim (toLowerCase s)"

text \<open>
  \<open>User.findOne({ email })\<close>: the first user whose stored email satisfies the condition.
  The setters of the path run on a string in a query as they do on a document.
  The outer \<open>None\<close> is a rejected promise.
\<close>

definition User_findOne :: "libs \<Rightarrow> store \<Rightarrow> json option \<Rightarrow> user option option" where
  "User_findOne L st email_v =
     (if \<not> connected st then None
      else (case (case email_v of
                    Some (JStr s) \<Rightarrow> Some (\<lambda>e. e = normalize_email s)
                  | _ \<Rightarrow> castStringQuery L email_v) of
              None \<Rightarrow> None
            | Some cond \<Rightarrow> Some (find (\<lambda>u. cond (email u)) (users st))))"

text \<open>
  \<open>new User({username, email, password, role}).save()\<close>: validation against
  \<open>userSchema\<close>, then the insert, which the unique indexes on \<open>username\<close> and
  \<open>email\<close> reject for a duplicate. \<open>None\<close> is a rejected promise.
\<close>

definition User_save ::
  "libs \<Rightarrow> nat \<Rightarrow> store \<Rightarrow> json option \<Rightarrow> json option \<Rightarrow> string \<Rightarrow> string \<Rightarrow> store option" where
  "User_save L now st username_v email_v password_v role_v =
     (case (required_string L trim username_v, required_string L normalize_email email_v) of
        (Some un, Some em) \<Rightarrow>
          if password_v = [] \<or> role_v \<notin> {''user'', ''admin''} then None
          else if \<not> connected st then None
          else if list_ex (\<lambda>u. username u = un \<or> email u = em) (users st) then None
          else Some (st\<lparr>users := users st @
                         [\<lparr>user_id = next_id st, username = un, email = em,
                           password = password_v, role = role_v,
                           user_createdAt = now, user_updatedAt = now\<rparr>],
                       next_id := Suc (next_id st)\<rparr>)
      | _ \<Rightarrow> None)"

text \<open>\<open>new Book({title, author, year}).save()\<close> against \<open>bookSchema\<close>.\<close>

definition Book_save ::
  "libs \<Rightarrow> nat \<Rightarrow> store \<Rightarrow> json option \<Rightarrow> json option \<Rightarrow> json option \<Rightarrow> (book \<times> store) option" where
  "Book_save L now st title_v author_v year_v =
     (case (required_string L trim title_v, required_string L trim author_v,
            optional_number L year_v) of
        (Some t, Some a, Some y) \<Rightarrow>
          if \<not> connected st then None
          else (let b = \<lparr>book_id = next_id st, title = t, author = a, year = y,
                          createdAt = now, updatedAt = now\<rparr>
                in Some (b, st\<lparr>books := books st @ [b], next_id := Suc (next_id st)\<rparr>))
      | _ \<Rightarrow> None)"

text \<open>
  The two filters \<open>getAllBooks\<close> builds: \<open>{}\<close> and
  \<open>{$or: [{title: {$regex: s, $options: "i"}}, {author: {$regex: s, $options: "i"}}]}\<close>.
\<close>

datatype book_filter = Everything | TitleOrAuthorRegex string

definition compile_filter :: "libs \<Rightarrow> book_filter \<Rightarrow> (book \<Rightarrow> bool) option" where
  "compile_filter L f =
     (case f of
        Everything \<Rightarrow> Some (\<lambda>b. True)
      | TitleOrAuthorRegex s \<Rightarrow>
          map_option (\<lambda>m. (\<lambda>b. m (title b) \<or> m (author b))) (regex_i L s))"

text \<open>
  \<open>Book.find(filter).sort({createdAt: -1}).skip(skip).limit(limit)\<close>. Among books of
  equal \<open>createdAt\<close> the store may answer in any order; here they keep their stored
  order.
\<close>

definition Book_find :: "libs \<Rightarrow> store \<Rightarrow> book_filter \<Rightarrow> int \<Rightarrow> int \<Rightarrow> book list option" where
  "Book_find L st f skip lmt =
     (if \<not> connected st then None
      else map_option
             (\<lambda>p. take (nat lmt) (drop (nat skip)
                     (sort_key (\<lambda>b. - int (createdAt b)) (filter p (books st)))))
             (compile_filter L f))"

text \<open>\<open>Book.countDocuments(filter)\<close>.\<close>

definition Book_countDocuments :: "libs \<Rightarrow> store \<Rightarrow> book_filter \<Rightarrow> nat option" where
  "Book_countDocuments L st f =
     (if \<not> connected st then None
      else map_option (\<lambda>p. length (filter p (books st))) (compile_filter L f))"

text \<open>
  \<open>Book.findByIdAndUpdate(id, {title, author, year}, {new: true, runValidators: true})\<close>:
  the update and the id are cast and validated before the store is asked. The outer
  \<open>None\<close> is a rejected promise (a cast or validation error, or no database),
  \<open>Some None\<close> is no document with this id.
\<close>

definition Book_findByIdAndUpdate ::
  "libs \<Rightarrow> nat \<Rightarrow> store \<Rightarrow> string \<Rightarrow> json option \<Rightarrow> json option \<Rightarrow> json option
     \<Rightarrow> (book \<times> store) option option" where
  "Book_findByIdAndUpdate L now st id_s title_v author_v year_v =
     (case castUpdate L title_v author_v year_v of
        None \<Rightarrow> None
      | Some change \<Rightarrow>
          (case castObjectId L id_s of
             None \<Rightarrow> None
           | Some i \<Rightarrow>
               if \<not> connected st then None
               else
                 (case find (\<lambda>b. book_id b = i) (books st) of
                    None \<Rightarrow> Some None
                  | Some b \<Rightarrow>
                      (let b' = (change b)\<lparr>book_id := i, createdAt := createdAt b,
                                           updatedAt := now\<rparr>
                       in Some (Some (b', st\<lparr>books :=
                            map (\<lambda>x. if book_id x = i then b' else x) (books st)\<rparr>))))))"

text \<open>\<open>Book.findByIdAndDelete(id)\<close>.\<close>

definition Book_findByIdAndDelete ::
  "libs \<Rightarrow> store \<Rightarrow> string \<Rightarrow> (book \<times> store) option option" where
  "Book_findByIdAndDelete L st id_s =
     (case castObjectId L id_s of
        None \<Rightarrow> None
      | Some i \<Rightarrow>
          if \<not> connected st then None
          else
            (case find (\<lambda>b. book_id b = i) (books st) of
               None \<Rightarrow> Some None
             | Some b \<Rightarrow>
                 Some (Some (b, st\<lparr>books := filter (\<lambda>x. book_id x \<noteq> i) (books st)\<rparr>))))"


section \<open>Auth Service (authController.js)\<close>

text \<open>
  Neither handler has a \<open>try\<close>/\<open>catch\<close>: a rejected \<open>await\<close> rejects the handler's
  own promise and no response is sent.
\<close>

definition register :: "libs \<Rightarrow> nat \<Rightarrow> store \<Rightarrow> request \<Rightarrow> outcome \<times> store" where
  "register L now st req =
     (let username_v = body req ''username'';
          email_v = body req ''email'';
          password_v = body req ''password''
      in if \<not> truthy username_v \<or> \<not> truthy email_v \<or> \<not> truthy password_v then
           (Responded 400 (Message ''All fields required''), st)
         else
           (case User_findOne L st email_v of
              None \<Rightarrow> (Unhandled, st)
            | Some (Some existing) \<Rightarrow> (Responded 400 (Message ''User already exists''), st)
            | Some None \<Rightarrow>
                (case bcrypt_hash L password_v 10 of
                   None \<Rightarrow> (Unhandled, st)
                 | Some hashedPassword \<Rightarrow>
                     (case User_save L now st username_v email_v hashedPassword ''user'' of
                        None \<Rightarrow> (Unhandled, st)
                      | Some st' \<Rightarrow>
                          (Responded 201 (Message ''User registered successfully''), st')))))"

definition login :: "libs \<Rightarrow> string \<Rightarrow> nat \<Rightarrow> store \<Rightarrow> request \<Rightarrow> outcome" where
  "login L secret now st req =
     (let email_v = body req ''email'';
          password_v = body req ''password''
      in case User_findOne L st email_v of
           None \<Rightarrow> Unhandled
         | Some None \<Rightarrow> Responded 400 (Message ''Invalid credentials'')
         | Some (Some u) \<Rightarrow>
             (case bcrypt_compare L password_v (password u) of
                None \<Rightarrow> Unhandled
              | Some isMatch \<Rightarrow>
                  if \<not> isMatch then Responded 400 (Message ''Invalid credentials'')
                  else
                    (case jwt_sign L \<lparr>tok_id = user_id u, tok_role = role u\<rparr> secret ''1h'' now of
                       None \<Rightarrow> Unhandled
                     | Some token \<Rightarrow>
                         Responded 200
                           (LoginOk token (user_id u) (username u) (email u) (role u)))))"

section \<open>Catalog Service (bookController.js)\<close>

text \<open>\<open>Math.ceil(totalBooks / limit)\<close>.\<close>

definition ceil_div :: "nat \<Rightarrow> int \<Rightarrow> int" where
  "ceil_div totalBooks lmt = \<lceil>(of_nat totalBooks :: rat) / of_int lmt\<rceil>"

text \<open>
  The search text \<open>req.query.search?.trim() || ""\<close> and the filter built from it: the text
  itself is the \<open>$regex\<close> of both conditions.
\<close>

definition search_text :: "request \<Rightarrow> string" where
  "search_text req = (case query req ''search'' of None \<Rightarrow> [] | Some s \<Rightarrow> trim s)"

definition search_filter :: "request \<Rightarrow> book_filter" where
  "search_filter req =
     (let search = search_text req
      in if search \<noteq> [] then TitleOrAuthorRegex search else Everything)"

text \<open>The answer of the listing when one of its numbers is not exact.\<close>

definition rounded :: "libs \<Rightarrow> store \<Rightarrow> request \<Rightarrow> outcome" where
  "rounded L st req = (case rounded_listing L st req of (status, t) \<Rightarrow> Responded status (Inexact t))"

text \<open>
  The listing. \<open>page\<close>, \<open>limit\<close>, \<open>skip\<close> and the count are computed as the code
  computes them as long as they are exact; the quotient \<open>totalBooks / limit\<close> of two
  exact numbers, \<open>limit\<close> at least 1, rounds to a double with the same ceiling.
\<close>

definition getAllBooks :: "libs \<Rightarrow> store \<Rightarrow> request \<Rightarrow> outcome" where
  "getAllBooks L st req =
     (let page_v = Math_max (or_default (parseInt (query req ''page'')) 1) 1;
          limit_v = Math_max (or_default (parseInt (query req ''limit'')) 5) 1;
          flt = search_filter req
      in case (page_v, limit_v) of
           (Exact pg, Exact lm) \<Rightarrow>
             (let skip = (pg - 1) * lm
              in if \<not> isSafeInteger skip then rounded L st req
                 else
                   (case (Book_find L st flt skip lm, Book_countDocuments L st flt) of
                      (Some bs, Some totalBooks) \<Rightarrow>
                        if \<not> isSafeInteger (int totalBooks) then rounded L st req
                        else
                          Responded 200
                            (BookPage \<lparr>data = bs, page = pg, limit = lm,
                                       totalPages = ceil_div totalBooks lm,
                                       totalItems = int totalBooks\<rparr>)
                    | _ \<Rightarrow> Responded 500 (Failure ''Failed to fetch books'')))
         | _ \<Rightarrow> rounded L st req)"

definition createBook :: "libs \<Rightarrow> nat \<Rightarrow> store \<Rightarrow> request \<Rightarrow> outcome \<times> store" where
  "createBook L now st req =
     (let title_v = body req ''title'';
          author_v = body req ''author'';
          year_v = body req ''year''
      in if \<not> truthy title_v \<or> \<not> truthy author_v \<or> \<not> truthy year_v then
           (Responded 400 (Message ''Title, author, and year are required''), st)
         else
           (case Book_save L now st title_v author_v year_v of
              Some (savedBook, st') \<Rightarrow> (Responded 201 (BookData savedBook), st')
            | None \<Rightarrow> (Responded 400 (Failure ''Invalid book data''), st)))"

definition updateBook :: "libs \<Rightarrow> nat \<Rightarrow> store \<Rightarrow> request \<Rightarrow> outcome \<times> store" where
  "updateBook L now st req =
     (let title_v = body req ''title'';
          author_v = body req ''author'';
          year_v = body req ''year''
      in case Book_findByIdAndUpdate L now st (params_id req) title_v author_v year_v of
           Some (Some (updatedBook, st')) \<Rightarrow> (Responded 200 (BookData updatedBook), st')
         | Some None \<Rightarrow> (Responded 404 (Message ''Book not found''), st)
         | None \<Rightarrow> (Responded 400 (Message ''Invalid ID or update data''), st))"

definition deleteBook :: "libs \<Rightarrow> store \<Rightarrow> request \<Rightarrow> outcome \<times> store" where
  "deleteBook L st req =
     (case Book_findByIdAndDelete L st (params_id req) of
        Some (Some (deletedBook, st')) \<Rightarrow> (Responded 200 (Success ''Book deleted successfully''), st')
      | Some None \<Rightarrow> (Responded 404 (Message ''Book not found''), st)
      | None \<Rightarrow> (Responded 400 (Message ''Invalid ID''), st))"

section \<open>Routes (bookRoutes.js, authRoutes.js)\<close>

text \<open>A protected route runs the Token Guard first and the handler only after \<open>next()\<close>.\<close>

definition protected ::
  "libs \<Rightarrow> string \<Rightarrow> nat \<Rightarrow> store \<Rightarrow> request \<Rightarrow> (decoded \<Rightarrow> outcome \<times> store) \<Rightarrow> outcome \<times> store" where
  "protected L secret now st req handler =
     (case authMiddleware L secret now req of
        Halt status b \<Rightarrow> (Responded status b, st)
      | Next d \<Rightarrow> handler d)"

definition post_books :: "libs \<Rightarrow> string \<Rightarrow> nat \<Rightarrow> store \<Rightarrow> request \<Rightarrow> outcome \<times> store" where
  "post_books L secret now st req = protected L secret now st req (\<lambda>d. createBook L now st req)"

definition put_books :: "libs \<Rightarrow> string \<Rightarrow> nat \<Rightarrow> store \<Rightarrow> request \<Rightarrow> outcome \<times> store" where
  "put_books L secret now st req = protected L secret now st req (\<lambda>d. updateBook L now st req)"

definition delete_books :: "libs \<Rightarrow> string \<Rightarrow> nat \<Rightarrow> store \<Rightarrow> request \<Rightarrow> outcome \<times> store" where
  "delete_books L secret now st req = protected L secret now st req (\<lambda>d. deleteBook L st req)"

definition get_me :: "libs \<Rightarrow> string \<Rightarrow> nat \<Rightarrow> store \<Rightarrow> request \<Rightarrow> outcome \<times> store" where
  "get_me L secret now st req = protected L secret now st req (\<lambda>d. (Responded 200 (Me d), st))"


section \<open>Properties the libraries are assumed to have\<close>

text \<open>
  The token library with \<open>expiresIn: "1h"\<close>: a token signed at \<open>now\<close> is a non-empty
  string without a space; verified with the signing secret it yields the payload with
  \<open>iat = now\<close> and \<open>exp = now + 3600\<close> as long as the clock is before \<open>exp\<close>, and fails
  from \<open>exp\<close> on.
\<close>

definition jwt_one_hour :: "libs \<Rightarrow> bool" where
  "jwt_one_hour L =
     (\<forall>p secret now token.
        jwt_sign L p secret ''1h'' now = Some token \<longrightarrow>
          token \<noteq> [] \<and> CHR '' '' \<notin> set token \<and>
          (\<forall>t. jwt_verify L token secret t =
                 (if t < now + 3600
                  then Some \<lparr>tok_id = tok_id p, tok_role = tok_role p,
                             tok_iat = now, tok_exp = now + 3600\<rparr>
                  else None)))"

section \<open>The filter the specification describes\<close>

text \<open>
  \<open>contains_ci s x\<close>: the text \<open>s\<close> occurs in \<open>x\<close> as a substring, letter case ignored.
  This is the specification's reading of a search, to be compared with \<open>search_filter\<close>.
\<close>

fun starts_with :: "string \<Rightarrow> string \<Rightarrow> bool" where
  "starts_with [] x = True"
| "starts_with (c # cs) [] = False"
| "starts_with (c # cs) (d # ds) = (c = d \<and> starts_with cs ds)"

fun contains :: "string \<Rightarrow> string \<Rightarrow> bool" where
  "contains s [] = (s = [])"
| "contains s (d # ds) = (starts_with s (d # ds) \<or> contains s ds)"

definition contains_ci :: "string \<Rightarrow> string \<Rightarrow> bool" where
  "contains_ci s x = contains (toLowerCase s) (toLowerCase x)"

definition spec_matches :: "string \<Rightarrow> book \<Rightarrow> bool" where
  "spec_matches s b = (contains_ci s (title b) \<or> contains_ci s (author b))"

section \<open>A reference instance of the libraries\<close>

text \<open>
  One instance of \<open>libs\<close>, small enough to compute with. Its tokens are unary numerals
  (a run of \<open>a\<close> closed by \<open>b\<close> for each number): a checksum of the secret, the time of
  issue, the user id and the characters of the role. Its pattern matcher knows literal
  text and the pattern \<open>.\<close>, which matches any character. Its casts all fail, and it
  answers a listing whose numbers are not exact with status 500.
\<close>

fun unary :: "nat list \<Rightarrow> string" where
  "unary [] = []"
| "unary (n # ns) = replicate n CHR ''a'' @ CHR ''b'' # unary ns"

fun un_unary :: "nat \<Rightarrow> string \<Rightarrow> nat list" where
  "un_unary k [] = []"
| "un_unary k (c # cs) = (if c = CHR ''b'' then k # un_unary 0 cs else un_unary (Suc k) cs)"

definition checksum :: "string \<Rightarrow> nat" where
  "checksum secret = sum_list (map of_char secret)"

definition ref_jwt_sign :: "token_payload \<Rightarrow> string \<Rightarrow> string \<Rightarrow> nat \<Rightarrow> string option" where
  "ref_jwt_sign p secret expiresIn now =
     (if expiresIn = ''1h''
      then Some (unary (checksum secret # now # tok_id p # map of_char (tok_role p)))
      else None)"

definition ref_jwt_verify :: "string \<Rightarrow> string \<Rightarrow> nat \<Rightarrow> decoded option" where
  "ref_jwt_verify token secret t =
     (case un_unary 0 token of
        m # issued # i # r \<Rightarrow>
          if m = checksum secret \<and> t < issued + 3600
          then Some \<lparr>tok_id = i, tok_role = map char_of r,
                     tok_iat = issued, tok_exp = issued + 3600\<rparr>
          else None
      | _ \<Rightarrow> None)"

definition plain_char :: "char \<Rightarrow> bool" where
  "plain_char c =
     (let n = (of_char c :: nat)
      in (48 \<le> n \<and> n \<le> 57) \<or> (65 \<le> n \<and> n \<le> 90) \<or> (97 \<le> n \<and> n \<le> 122) \<or> n = 32)"

definition ref_regex_i :: "string \<Rightarrow> (string \<Rightarrow> bool) option" where
  "ref_regex_i pat =
     (if pat = ''.'' then Some (\<lambda>x. x \<noteq> [])
      else if list_all plain_char pat then Some (contains_ci pat)
      else None)"

definition ref_libs :: libs where
  "ref_libs =
     \<lparr>jwt_sign = ref_jwt_sign,
      jwt_verify = ref_jwt_verify,
      bcrypt_hash = (\<lambda>pw rounds. case pw of Some (JStr s) \<Rightarrow> Some (''$2a$'' @ s) | _ \<Rightarrow> None),
      bcrypt_compare = (\<lambda>pw h. case pw of Some (JStr s) \<Rightarrow> Some (h = ''$2a$'' @ s) | _ \<Rightarrow> None),
      regex_i = ref_regex_i,
      castString = (\<lambda>j. None),
      castNumber = (\<lambda>j. None),
      castStringQuery = (\<lambda>v. None),
      castObjectId = (\<lambda>s. None),
      castUpdate = (\<lambda>t a y. None),
      rounded_listing = (\<lambda>st req. (500, []))\<rparr>"

text \<open>The five books of \<open>seed.js\<close>, inserted together into an empty collection.\<close>

definition seed_books :: "book list" where
  "seed_books =
     [\<lparr>book_id = 0, title = ''The Catcher in the Rye'', author = ''J.D. Salinger'',
       year = Some 1951, createdAt = 0, updatedAt = 0\<rparr>,
      \<lparr>book_id = 1, title = ''To Kill a Mockingbird'', author = ''Harper Lee'',
       year = Some 1960, createdAt = 0, updatedAt = 0\<rparr>,
      \<lparr>book_id = 2, title = ''1984'', author = ''George Orwell'',
       year = Some 1949, createdAt = 0, updatedAt = 0\<rparr>,
      \<lparr>book_id = 3, title = ''The Great Gatsby'', author = ''F. Scott Fitzgerald'',
       year = Some 1925, createdAt = 0, updatedAt = 0\<rparr>,
      \<lparr>book_id = 4, title = ''Pride and Prejudice'', author = ''Jane Austen'',
       year = Some 1813, createdAt = 0, updatedAt = 0\<rparr>]"

definition alice :: user where
  "alice = \<lparr>user_id = 5, username = ''alice'', email = ''alice@example.com'',
            password = ''$2a$wonderland'', role = ''user'',
            user_createdAt = 1, user_updatedAt = 1\<rparr>"

definition seeded :: store where
  "seeded = \<lparr>users = [alice], books = seed_books, next_id = 6, connected = True\<rparr>"

definition request0 :: request where
  "request0 = \<lparr>authorization = None, body = Map.empty, query = Map.empty, params_id = []\<rparr>"

text \<open>The listing a response carries, if it carries one.\<close>

definition sent_listing :: "outcome \<Rightarrow> listing option" where
  "sent_listing out = (case out of Responded status (BookPage l) \<Rightarrow> Some l | _ \<Rightarrow> None)"

text \<open>Requests used to evaluate the operations.\<close>

definition alice_token :: string where
  "alice_token = unary (checksum ''k'' # 0 # user_id alice # map of_char (role alice))"

definition alice_login :: request where
  "alice_login = request0\<lparr>body := [''email'' \<mapsto> JStr ''Alice@example.com'',
                                      ''password'' \<mapsto> JStr ''wonderland'']\<rparr>"

definition alice_wrong_login :: request where
  "alice_wrong_login = request0\<lparr>body := [''email'' \<mapsto> JStr ''alice@example.com'',
                                            ''password'' \<mapsto> JStr ''guess'']\<rparr>"

definition nobody_login :: request where
  "nobody_login = request0\<lparr>body := [''email'' \<mapsto> JStr ''nobody@example.com'',
                                       ''password'' \<mapsto> JStr ''wonderland'']\<rparr>"

definition alice_again :: request where
  "alice_again = request0\<lparr>body := [''username'' \<mapsto> JStr ''alice2'',
                                      ''email'' \<mapsto> JStr '' Alice@Example.com '',
                                      ''password'' \<mapsto> JStr ''pw'']\<rparr>"

definition second_alice :: request where
  "second_alice = request0\<lparr>body := [''username'' \<mapsto> JStr ''alice'',
                                       ''email'' \<mapsto> JStr ''other@example.com'',
                                       ''password'' \<mapsto> JStr ''pw'']\<rparr>"

definition dune :: request where
  "dune = request0\<lparr>body := [''title'' \<mapsto> JStr ''Dune'', ''author'' \<mapsto> JStr ''Frank Herbert'',
                               ''year'' \<mapsto> JNum 1965]\<rparr>"

definition dune_extra :: request where
  "dune_extra = request0\<lparr>body := [''title'' \<mapsto> JStr ''Dune'', ''author'' \<mapsto> JStr ''Frank Herbert'',
                                     ''year'' \<mapsto> JNum 1965, ''_id'' \<mapsto> JNum 0,
                                     ''createdAt'' \<mapsto> JNum 1, ''role'' \<mapsto> JStr ''admin'']\<rparr>"

definition dune_no_year :: request where
  "dune_no_year = request0\<lparr>body := [''title'' \<mapsto> JStr ''Dune'',
                                       ''author'' \<mapsto> JStr ''Frank Herbert'']\<rparr>"

definition dune_year_zero :: request where
  "dune_year_zero = request0\<lparr>body := [''title'' \<mapsto> JStr ''Dune'',
                                         ''author'' \<mapsto> JStr ''Frank Herbert'',
                                         ''year'' \<mapsto> JNum 0]\<rparr>"

definition odd_paging :: request where
  "odd_paging = request0\<lparr>query := [''page'' \<mapsto> ''0'', ''limit'' \<mapsto> ''-3'']\<rparr>"

definition limit_two :: request where
  "limit_two = request0\<lparr>query := [''limit'' \<mapsto> ''2'']\<rparr>"

definition limit_zero :: request where
  "limit_zero = request0\<lparr>query := [''limit'' \<mapsto> ''0'']\<rparr>"

definition limit_text :: request where
  "limit_text = request0\<lparr>query := [''limit'' \<mapsto> ''abc'']\<rparr>"

definition dot_search :: request where
  "dot_search = request0\<lparr>query := [''search'' \<mapsto> ''.'']\<rparr>"

definition alice_no_password :: request where
  "alice_no_password = request0\<lparr>body := [''email'' \<mapsto> JStr ''alice@example.com'']\<rparr>"

definition nobody_no_password :: request where
  "nobody_no_password = request0\<lparr>body := [''email'' \<mapsto> JStr ''nobody@example.com'']\<rparr>"

definition emile :: user where
  "emile = \<lparr>user_id = 6, username = ''emile'', email = CHR 0xE9 # ''mile@example.com'',
            password = ''$2a$bonjour'', role = ''user'',
            user_createdAt = 2, user_updatedAt = 2\<rparr>"

definition seeded_emile :: store where
  "seeded_emile = \<lparr>users = [alice, emile], books = seed_books, next_id = 7, connected = True\<rparr>"

definition emile_again :: request where
  "emile_again = request0\<lparr>body := [''username'' \<mapsto> JStr ''emile2'',
                                      ''email'' \<mapsto> JStr (CHR 0xC9 # ''MILE@Example.com''),
                                      ''password'' \<mapsto> JStr ''pw'']\<rparr>"

definition blank_title :: request where
  "blank_title = request0\<lparr>body := [''title'' \<mapsto> JStr '' '', ''author'' \<mapsto> JStr ''Frank Herbert'',
                                      ''year'' \<mapsto> JNum 1965]\<rparr>"

definition gatsby_search :: request where
  "gatsby_search = request0\<lparr>query := [''search'' \<mapsto> '' Gatsby '', ''limit'' \<mapsto> ''2'']\<rparr>"

section \<open>The coercion of page and limit, as amended\<close>

text \<open>
  What a query parameter with the default \<open>d\<close> lists as: the default when it is absent,
  has no leading integer or is zero; 1 when it is negative; itself when it is positive and
  exact. A positive number that is not exact has no reading here.
\<close>

definition coerced :: "number \<Rightarrow> int \<Rightarrow> int option" where
  "coerced x d =
     (case x of
        NaN \<Rightarrow> Some d
      | Exact n \<Rightarrow> Some (if n = 0 then d else if n < 0 then 1 else n)
      | Rounded n \<Rightarrow> if n < 0 then Some 1 else None)"

section \<open>Auxiliary facts\<close>

lemma split_no_sep: "sep \<notin> set w \<Longrightarrow> split sep w = [w]"
  by (induction w) auto

lemma split_append: "sep \<notin> set w \<Longrightarrow> split sep (w @ sep # rest) = w # split sep rest"
  by (induction w) auto

lemma split_Bearer:
  assumes "CHR '' '' \<notin> set token"
  shows "split CHR '' '' (''Bearer '' @ token) = [''Bearer'', token]"
proof -
  have "split CHR '' '' (''Bearer'' @ CHR '' '' # token) = ''Bearer'' # split CHR '' '' token"
    by (rule split_append) simp
  with assms show ?thesis by (simp add: split_no_sep)
qed

lemma split_Bearer_more:
  assumes "CHR '' '' \<notin> set token"
  shows "split CHR '' '' (''Bearer '' @ token @ CHR '' '' # rest)
           = ''Bearer'' # token # split CHR '' '' rest"
proof -
  have "split CHR '' '' (''Bearer'' @ CHR '' '' # (token @ CHR '' '' # rest))
          = ''Bearer'' # split CHR '' '' (token @ CHR '' '' # rest)"
    by (rule split_append) simp
  with assms show ?thesis by (simp add: split_append)
qed

lemma authMiddleware_Bearer:
  assumes "token \<noteq> []" and "CHR '' '' \<notin> set token"
  shows "authMiddleware L secret now (req\<lparr>authorization := Some (''Bearer '' @ token)\<rparr>) =
           (case jwt_verify L token secret now of
              None \<Rightarrow> Halt 401 (Message ''TOKEN_INVALID_OR_EXPIRED'')
            | Some d \<Rightarrow> Next d)"
  using assms split_Bearer [OF assms(2)]
  by (simp add: authMiddleware_def del: split.simps)

lemma authMiddleware_no_header:
  "authorization req = None \<or> authorization req = Some [] \<Longrightarrow>
     authMiddleware L secret now req = Halt 401 (Message ''NO_AUTH_HEADER'')"
  by (auto simp: authMiddleware_def)

text \<open>Exactly when the Token Guard calls \<open>next()\<close>.\<close>

lemma authMiddleware_Next_iff:
  "authMiddleware L secret now req = Next d \<longleftrightarrow>
     (\<exists>h t. authorization req = Some h
        \<and> nth_opt (split CHR '' '' h) 0 = Some ''Bearer''
        \<and> nth_opt (split CHR '' '' h) 1 = Some t \<and> t \<noteq> []
        \<and> jwt_verify L t secret now = Some d)"
  by (auto simp: authMiddleware_def Let_def split: option.splits if_splits)

text \<open>A protected route sends the guard's refusal and leaves the store alone.\<close>

lemma protected_routes_halt:
  assumes "authMiddleware L secret now req = Halt status b"
  shows "post_books L secret now st req = (Responded status b, st)"
    and "put_books L secret now st req = (Responded status b, st)"
    and "delete_books L secret now st req = (Responded status b, st)"
    and "get_me L secret now st req = (Responded status b, st)"
  using assms
  by (simp_all add: post_books_def put_books_def delete_books_def get_me_def protected_def)

lemma authMiddleware_Halt_401:
  "authMiddleware L secret now req = Halt status b \<Longrightarrow> status = 401"
  by (auto simp: authMiddleware_def Let_def split: option.splits if_splits)

text \<open>The lookup by a string email on a database that answers.\<close>

lemma User_findOne_string:
  "connected st \<Longrightarrow>
     User_findOne L st (Some (JStr e))
       = Some (find (\<lambda>u. email u = normalize_email e) (users st))"
  by (simp add: User_findOne_def)

text \<open>\<open>createBook\<close> leaves the store as it was or appends the book it reports.\<close>

lemma createBook_store:
  "snd (createBook L now st req) = st
     \<or> (\<exists>b. createBook L now st req
              = (Responded 201 (BookData b),
                 st\<lparr>books := books st @ [b], next_id := Suc (next_id st)\<rparr>))"
  by (auto simp: createBook_def Book_save_def Let_def split: option.splits prod.splits)

lemma find_Some_if_member:
  "x \<in> set xs \<Longrightarrow> P x \<Longrightarrow> \<exists>y. find P xs = Some y"
  by (induction xs) auto

lemma find_None_if_no_member:
  "\<forall>x\<in>set xs. \<not> P x \<Longrightarrow> find P xs = None"
  by (induction xs) auto

lemma un_unary_replicate:
  "un_unary k (replicate n CHR ''a'' @ CHR ''b'' # rest) = (k + n) # un_unary 0 rest"
  by (induction n arbitrary: k) auto

lemma un_unary_unary: "un_unary 0 (unary ns) = ns"
  by (induction ns) (auto simp: un_unary_replicate)

lemma unary_no_space: "CHR '' '' \<notin> set (unary ns)"
  by (induction ns) auto

lemma unary_nonempty: "unary (n # ns) \<noteq> []"
  by simp

lemma ref_libs_one_hour: "jwt_one_hour ref_libs"
  unfolding jwt_one_hour_def
  by (auto simp: ref_libs_def ref_jwt_sign_def ref_jwt_verify_def un_unary_unary unary_no_space
        unary_nonempty comp_def simp del: unary.simps)

lemma alice_logs_in:
  "login ref_libs ''k'' 0 seeded alice_login =
     Responded 200 (LoginOk alice_token 5 ''alice'' ''alice@example.com'' ''user'')"
  by code_simp

lemma alice_token_plain: "alice_token \<noteq> [] \<and> CHR '' '' \<notin> set alice_token"
  by (simp add: alice_token_def unary_no_space unary_nonempty del: unary.simps)

lemma ceil_div_real: "ceil_div n k = \<lceil>real n / real_of_int k\<rceil>"
proof -
  have "real n / real_of_int k = of_rat ((of_nat n :: rat) / of_int k)"
    by (simp add: of_rat_divide)
  then show ?thesis
    by (simp add: ceil_div_def)
qed

lemma ceil_div_bounds:
  assumes "1 \<le> k"
  shows "(ceil_div n k - 1) * k < int n \<and> int n \<le> ceil_div n k * k"
proof -
  have k: "0 < real_of_int k" using assms by simp
  have lo: "(real_of_int (ceil_div n k) - 1) * real_of_int k < real n"
    unfolding ceil_div_real by (rule ceiling_divide_lower [OF k])
  have hi: "real n \<le> real_of_int (ceil_div n k) * real_of_int k"
    unfolding ceil_div_real by (rule ceiling_divide_upper [OF k])
  from lo have "real_of_int ((ceil_div n k - 1) * k) < real_of_int (int n)" by simp
  then have 1: "(ceil_div n k - 1) * k < int n" by (simp only: of_int_less_iff)
  from hi have "real_of_int (int n) \<le> real_of_int (ceil_div n k * k)" by simp
  then have 2: "int n \<le> ceil_div n k * k" by (simp only: of_int_le_iff)
  from 1 2 show ?thesis by simp
qed

text \<open>What a successful listing was computed from.\<close>

lemma getAllBooks_success:
  assumes "getAllBooks L st req = Responded 200 (BookPage l)"
  shows "\<exists>p. compile_filter L (search_filter req) = Some p \<and> connected st
           \<and> Math_max (or_default (parseInt (query req ''page'')) 1) 1 = Exact (page l)
           \<and> Math_max (or_default (parseInt (query req ''limit'')) 5) 1 = Exact (limit l)
           \<and> data l = take (nat (limit l)) (drop (nat ((page l - 1) * limit l))
                         (sort_key (\<lambda>b. - int (createdAt b)) (filter p (books st))))
           \<and> totalItems l = int (length (filter p (books st)))
           \<and> totalPages l = ceil_div (length (filter p (books st))) (limit l)"
  using assms
  by (auto simp: getAllBooks_def Let_def Book_find_def Book_countDocuments_def rounded_def
           split: option.splits if_splits number.splits prod.splits)

text \<open>The listing of a store that answers, for exact numbers.\<close>

lemma getAllBooks_exact:
  assumes "connected st"
      and "compile_filter L (search_filter req) = Some p"
      and "Math_max (or_default (parseInt (query req ''page'')) 1) 1 = Exact pg"
      and "Math_max (or_default (parseInt (query req ''limit'')) 5) 1 = Exact lm"
      and "isSafeInteger ((pg - 1) * lm)"
      and "isSafeInteger (int (length (filter p (books st))))"
  shows "getAllBooks L st req =
           Responded 200
             (BookPage \<lparr>data = take (nat lm) (drop (nat ((pg - 1) * lm))
                                 (sort_key (\<lambda>b. - int (createdAt b)) (filter p (books st)))),
                        page = pg, limit = lm,
                        totalPages = ceil_div (length (filter p (books st))) lm,
                        totalItems = int (length (filter p (books st)))\<rparr>)"
  using assms
  by (simp add: getAllBooks_def Let_def Book_find_def Book_countDocuments_def)

lemma Math_max_at_least:
  "Math_max x 1 = Exact n \<Longrightarrow> 1 \<le> n"
  by (auto simp: Math_max_def split: number.splits if_splits)

lemma coerced_is_the_code:
  assumes "coerced x d = Some v" and "1 \<le> d"
  shows "Math_max (or_default x d) 1 = Exact v"
  using assms
  by (auto simp: coerced_def or_default_def Math_max_def split: number.splits if_splits)

text \<open>The filter of a request, from its search text.\<close>

lemma compile_search_filter:
  "compile_filter L (search_filter req) =
     (if (case query req ''search'' of None \<Rightarrow> [] | Some x \<Rightarrow> trim x) = [] then Some (\<lambda>b. True)
      else map_option (\<lambda>m. (\<lambda>b. m (title b) \<or> m (author b)))
             (regex_i L (case query req ''search'' of None \<Rightarrow> [] | Some x \<Rightarrow> trim x)))"
  by (simp add: compile_filter_def search_filter_def search_text_def)

text \<open>
  When the lookup finds a user and the comparison returns false, the answer is the one for
  an unknown email.
\<close>

lemma login_wrong_password:
  assumes "User_findOne L st (body req1 ''email'') = Some None"
      and "User_findOne L st (body req2 ''email'') = Some (Some u)"
      and "bcrypt_compare L (body req2 ''password'') (password u) = Some False"
  shows "login L secret now1 st req1 = login L secret now2 st req2
       \<and> login L secret now1 st req1 = Responded 400 (Message ''Invalid credentials'')"
  using assms by (simp add: login_def)

text \<open>The handlers of the catalog catch every rejection: they always send a response.\<close>

lemma catalog_handlers_respond:
  "getAllBooks L st req \<noteq> Unhandled"
  "fst (createBook L now st req) \<noteq> Unhandled"
  "fst (updateBook L now st req) \<noteq> Unhandled"
  "fst (deleteBook L st req) \<noteq> Unhandled"
  by (auto simp: getAllBooks_def createBook_def updateBook_def deleteBook_def Let_def rounded_def
           split: option.splits prod.splits number.splits)

text \<open>With no database, the handlers of the Auth Service send nothing.\<close>

lemma auth_handlers_without_store:
  assumes "\<not> connected st"
  shows "truthy (body req ''username'') \<and> truthy (body req ''email'')
           \<and> truthy (body req ''password'') \<longrightarrow> register L now st req = (Unhandled, st)"
    and "login L secret now st req = Unhandled"
  using assms by (auto simp: register_def login_def User_findOne_def)

section \<open>Token Guard\<close>

text \<open>
  C1. The claim: the Token Guard lets a request through if and only if the
  \<open>Authorization\<close> header is present, is exactly the two-token scheme
  \<open>Bearer <token>\<close> and the token verifies; every other header is refused with 401.
  The handler's own comment asks for the same (the header must be exactly
  \<open>Bearer <token>\<close>). The code reads the first two segments of the header split at
  spaces and never looks at a third: a header \<open>Bearer <token> <anything>\<close> whose
  second segment verifies is let through with the decoded identity, where the claim has
  \<open>MALFORMED_AUTH_HEADER\<close>.
\<close>

theorem authMiddleware_ignores_trailing_segments:
  assumes "token \<noteq> []" and "CHR '' '' \<notin> set token"
      and "jwt_verify L token secret now = Some d"
  shows "authMiddleware L secret now
           (req\<lparr>authorization := Some (''Bearer '' @ token @ CHR '' '' # rest)\<rparr>) = Next d"
  using assms split_Bearer_more [OF assms(2), of rest]
  by (simp add: authMiddleware_def del: split.simps)

theorem authMiddleware_ignores_trailing_segments_witness:
  "alice_token \<noteq> [] \<and> CHR '' '' \<notin> set alice_token
   \<and> jwt_verify ref_libs alice_token ''k'' 10
       = Some \<lparr>tok_id = 5, tok_role = ''user'', tok_iat = 0, tok_exp = 3600\<rparr>
   \<and> authMiddleware ref_libs ''k'' 10
       (request0\<lparr>authorization := Some (''Bearer '' @ alice_token @ CHR '' '' # ''not a token'')\<rparr>)
       = Next \<lparr>tok_id = 5, tok_role = ''user'', tok_iat = 0, tok_exp = 3600\<rparr>"
proof -
  have v: "jwt_verify ref_libs alice_token ''k'' 10
             = Some \<lparr>tok_id = 5, tok_role = ''user'', tok_iat = 0, tok_exp = 3600\<rparr>"
    by code_simp
  from alice_token_plain have ne: "alice_token \<noteq> []" and sp: "CHR '' '' \<notin> set alice_token"
    by simp_all
  from authMiddleware_ignores_trailing_segments
         [OF ne sp v, where req = request0 and rest = "''not a token''"] ne sp v
  show ?thesis by blast
qed

text \<open>
  C8. A token issued by a successful login at time \<open>T\<close> (the library's clock, in seconds),
  presented as \<open>Bearer <token>\<close>, passes the Token Guard at every time before
  \<open>T + 60\<close> minutes and is refused with 401 \<open>TOKEN_INVALID_OR_EXPIRED\<close> at every time
  from \<open>T + 60\<close> minutes on, for every token library that implements \<open>expiresIn: "1h"\<close>
  (\<open>jwt_one_hour\<close>): login signs with \<open>"1h"\<close> and the guard verifies with the same secret.
\<close>

theorem token_valid_for_one_hour:
  assumes "jwt_one_hour L"
      and "login L secret T st req = Responded 200 (LoginOk token i un em r)"
  shows "(t < T + 60 * 60 \<longrightarrow>
            (\<exists>d. authMiddleware L secret t (rq\<lparr>authorization := Some (''Bearer '' @ token)\<rparr>)
                   = Next d))
       \<and> (T + 60 * 60 \<le> t \<longrightarrow>
            authMiddleware L secret t (rq\<lparr>authorization := Some (''Bearer '' @ token)\<rparr>)
              = Halt 401 (Message ''TOKEN_INVALID_OR_EXPIRED''))"
proof -
  from assms(2) obtain p where s: "jwt_sign L p secret ''1h'' T = Some token"
    by (auto simp: login_def Let_def split: option.splits if_splits)
  with assms(1) have ne: "token \<noteq> []" and sp: "CHR '' '' \<notin> set token"
    and v: "\<And>t. jwt_verify L token secret t =
                 (if t < T + 3600
                  then Some \<lparr>tok_id = tok_id p, tok_role = tok_role p,
                             tok_iat = T, tok_exp = T + 3600\<rparr>
                  else None)"
    unfolding jwt_one_hour_def by blast+
  have g: "authMiddleware L secret t (rq\<lparr>authorization := Some (''Bearer '' @ token)\<rparr>) =
           (case jwt_verify L token secret t of
              None \<Rightarrow> Halt 401 (Message ''TOKEN_INVALID_OR_EXPIRED'')
            | Some d \<Rightarrow> Next d)"
    by (rule authMiddleware_Bearer [OF ne sp])
  show ?thesis
    unfolding g by (simp add: v)
qed

text \<open>Alice's token of time 0 at 59 and at 61 minutes.\<close>

theorem token_valid_for_one_hour_witness:
  "jwt_one_hour ref_libs
   \<and> login ref_libs ''k'' 0 seeded alice_login =
       Responded 200 (LoginOk alice_token 5 ''alice'' ''alice@example.com'' ''user'')
   \<and> (\<exists>d. authMiddleware ref_libs ''k'' (59 * 60)
            (request0\<lparr>authorization := Some (''Bearer '' @ alice_token)\<rparr>) = Next d)
   \<and> authMiddleware ref_libs ''k'' (61 * 60)
            (request0\<lparr>authorization := Some (''Bearer '' @ alice_token)\<rparr>)
        = Halt 401 (Message ''TOKEN_INVALID_OR_EXPIRED'')"
  using token_valid_for_one_hour [OF ref_libs_one_hour alice_logs_in, of "59 * 60" request0]
        token_valid_for_one_hour [OF ref_libs_one_hour alice_logs_in, of "61 * 60" request0]
        ref_libs_one_hour alice_logs_in
  by simp

section \<open>Auth Service\<close>

text \<open>
  C2. The claim: every operation answers every input with a JSON body and a status, also
  when a store or hash operation throws. The four catalog handlers do
  (\<open>catalog_handlers_respond\<close>); \<open>register\<close> and \<open>login\<close> have no \<open>try\<close>/\<open>catch\<close>.
  Registering a fresh email under a username that is already taken passes the email
  lookup, and the insert is then rejected by the unique index on \<open>username\<close>: the
  handler's promise rejects, no response is sent and the store is unchanged.
\<close>

theorem register_duplicate_username_unhandled:
  assumes "body req ''username'' = Some (JStr un)" and "un \<noteq> []"
      and "body req ''email'' = Some (JStr e)" and "e \<noteq> []"
      and "truthy (body req ''password'')"
      and "connected st"
      and "\<forall>x\<in>set (users st). email x \<noteq> normalize_email e"
      and "u \<in> set (users st)" and "username u = trim un"
  shows "register L now st req = (Unhandled, st)"
proof -
  have f: "User_findOne L st (body req ''email'') = Some None"
    using assms(3,6,7) find_None_if_no_member [of "users st" "\<lambda>u. email u = normalize_email e"]
    by (simp add: User_findOne_def)
  have s: "User_save L now st (body req ''username'') (body req ''email'') h ''user'' = None" for h
    using assms(1,8,9)
    by (auto simp: User_save_def required_string_def list_ex_iff split: option.splits)
  show ?thesis
    using assms(1-5) f s
    by (simp add: register_def split: option.splits)
qed

theorem register_duplicate_username_unhandled_witness:
  "register ref_libs 7 seeded second_alice = (Unhandled, seeded)"
proof -
  have 1: "body second_alice ''username'' = Some (JStr ''alice'')"
    by (simp add: second_alice_def request0_def)
  have 2: "body second_alice ''email'' = Some (JStr ''other@example.com'')"
    by (simp add: second_alice_def request0_def)
  have 3: "truthy (body second_alice ''password'')"
    by (simp add: second_alice_def request0_def)
  have 4: "connected seeded"
    by (simp add: seeded_def)
  have 5: "\<forall>x\<in>set (users seeded). email x \<noteq> normalize_email ''other@example.com''"
    by code_simp
  have 6: "alice \<in> set (users seeded)"
    by (simp add: seeded_def)
  have 7: "username alice = trim ''alice''"
    by code_simp
  show ?thesis
    by (rule register_duplicate_username_unhandled [OF 1 _ 2 _ 3 4 5 6 7]) simp_all
qed

text \<open>
  C3. The claim: a login with an unknown email and a login with a known email whose
  password does not pass the hash comparison get the same response, so that the response
  does not tell whether the email is known. The handler's comment asks for the same (if
  the password does not match, return the error). When the comparison returns false they
  do (\<open>login_wrong_password\<close>). But \<open>login\<close> checks no field and has no
  \<open>try\<close>/\<open>catch\<close>: when the comparison throws, as for a body without a password, a
  known email gets no response at all while an unknown email gets 400
  \<open>{message: "Invalid credentials"}\<close>.
\<close>

theorem login_reveals_known_email:
  assumes "User_findOne L st (body req1 ''email'') = Some None"
      and "User_findOne L st (body req2 ''email'') = Some (Some u)"
      and "bcrypt_compare L (body req2 ''password'') (password u) = None"
  shows "login L secret now st req1 = Responded 400 (Message ''Invalid credentials'')
       \<and> login L secret now st req2 = Unhandled"
  using assms by (simp add: login_def)

theorem login_reveals_known_email_witness:
  "body nobody_no_password ''password'' = body alice_no_password ''password''
   \<and> User_findOne ref_libs seeded (body nobody_no_password ''email'') = Some None
   \<and> User_findOne ref_libs seeded (body alice_no_password ''email'') = Some (Some alice)
   \<and> bcrypt_compare ref_libs (body alice_no_password ''password'') (password alice) = None
   \<and> login ref_libs ''k'' 0 seeded nobody_no_password
       = Responded 400 (Message ''Invalid credentials'')
   \<and> login ref_libs ''k'' 0 seeded alice_no_password = Unhandled"
proof -
  have 0: "body nobody_no_password ''password'' = body alice_no_password ''password''"
    by (simp add: nobody_no_password_def alice_no_password_def request0_def)
  have 1: "User_findOne ref_libs seeded (body nobody_no_password ''email'') = Some None"
    by code_simp
  have 2: "User_findOne ref_libs seeded (body alice_no_password ''email'') = Some (Some alice)"
    by code_simp
  have 3: "bcrypt_compare ref_libs (body alice_no_password ''password'') (password alice) = None"
    by code_simp
  from login_reveals_known_email [OF 1 2 3, of "''k''" 0] 0 1 2 3
  show ?thesis by blast
qed

text \<open>
  C4. When a user with the same email, after the schema's normalisation (lower case,
  trimmed), is already stored, a registration that gives all three fields is answered
  with 400 \<open>{message: "User already exists"}\<close> and the store is left as it was: no user
  is added and no stored user changes.
\<close>

theorem register_duplicate_email:
  assumes "truthy (body req ''username'')"
      and "truthy (body req ''password'')"
      and "body req ''email'' = Some (JStr e)"
      and "e \<noteq> []"
      and "connected st"
      and "u \<in> set (users st)"
      and "email u = normalize_email e"
  shows "register L now st req = (Responded 400 (Message ''User already exists''), st)"
proof -
  from assms(6,7) obtain y where "find (\<lambda>u. email u = normalize_email e) (users st) = Some y"
    using find_Some_if_member [of u "users st" "\<lambda>u. email u = normalize_email e"] by auto
  with assms(1-5) show ?thesis
    by (simp add: register_def User_findOne_def)
qed

text \<open>
  Alice again, in capitals and with spaces around, and \<open>U+00C9 MILE@Example.com\<close> beside
  the stored \<open>U+00E9 mile@example.com\<close>.
\<close>

theorem register_duplicate_email_witness:
  "register ref_libs 7 seeded alice_again
     = (Responded 400 (Message ''User already exists''), seeded)
   \<and> register ref_libs 7 seeded_emile emile_again
     = (Responded 400 (Message ''User already exists''), seeded_emile)"
proof -
  have 1: "truthy (body alice_again ''username'')"
    by (simp add: alice_again_def request0_def)
  have 2: "truthy (body alice_again ''password'')"
    by (simp add: alice_again_def request0_def)
  have 3: "body alice_again ''email'' = Some (JStr '' Alice@Example.com '')"
    by (simp add: alice_again_def request0_def)
  have 5: "connected seeded"
    by (simp add: seeded_def)
  have 6: "alice \<in> set (users seeded)"
    by (simp add: seeded_def)
  have 7: "email alice = normalize_email '' Alice@Example.com ''"
    by code_simp
  have a: "register ref_libs 7 seeded alice_again
             = (Responded 400 (Message ''User already exists''), seeded)"
    by (rule register_duplicate_email [OF 1 2 3 _ 5 6 7]) simp
  have e1: "truthy (body emile_again ''username'')"
    by (simp add: emile_again_def request0_def)
  have e2: "truthy (body emile_again ''password'')"
    by (simp add: emile_again_def request0_def)
  have e3: "body emile_again ''email'' = Some (JStr (CHR 0xC9 # ''MILE@Example.com''))"
    by (simp add: emile_again_def request0_def)
  have e5: "connected seeded_emile"
    by (simp add: seeded_emile_def)
  have e6: "emile \<in> set (users seeded_emile)"
    by (simp add: seeded_emile_def)
  have e7: "email emile = normalize_email (CHR 0xC9 # ''MILE@Example.com'')"
    by code_simp
  have e: "register ref_libs 7 seeded_emile emile_again
             = (Responded 400 (Message ''User already exists''), seeded_emile)"
    by (rule register_duplicate_email [OF e1 e2 e3 _ e5 e6 e7]) simp
  from a e show ?thesis by simp
qed

section \<open>Catalog Service\<close>

text \<open>
  C5. The claim: a non-empty search lists exactly the books whose title or author contains
  the search text as a substring, letter case ignored, whatever characters the text has.
  The code hands the trimmed text to the store as the \<open>$regex\<close> of both conditions
  without escaping anything: the listing is whatever the store's pattern matcher accepts
  for the text read as a pattern. With a matcher for which \<open>.\<close> matches any character, the
  search \<open>.\<close> lists all five seeded books, of which only two contain a full stop.
\<close>

theorem search_text_is_the_pattern:
  assumes "getAllBooks L st req = Responded 200 (BookPage l)"
      and "search_text req \<noteq> []"
  shows "\<exists>m. regex_i L (search_text req) = Some m
           \<and> totalItems l = int (length (filter (\<lambda>b. m (title b) \<or> m (author b)) (books st)))
           \<and> data l = take (nat (limit l)) (drop (nat ((page l - 1) * limit l))
                        (sort_key (\<lambda>b. - int (createdAt b))
                           (filter (\<lambda>b. m (title b) \<or> m (author b)) (books st))))"
proof -
  from getAllBooks_success [OF assms(1)] obtain p where
    p: "compile_filter L (search_filter req) = Some p"
    and d: "data l = take (nat (limit l)) (drop (nat ((page l - 1) * limit l))
                         (sort_key (\<lambda>b. - int (createdAt b)) (filter p (books st))))"
    and t: "totalItems l = int (length (filter p (books st)))"
    by blast
  from p assms(2) obtain m where m: "regex_i L (search_text req) = Some m"
    and pm: "p = (\<lambda>b. m (title b) \<or> m (author b))"
    by (auto simp: compile_filter_def search_filter_def)
  from m d t show ?thesis unfolding pm by blast
qed

theorem search_text_is_the_pattern_witness:
  "getAllBooks ref_libs seeded dot_search =
     Responded 200 (BookPage \<lparr>data = seed_books, page = 1, limit = 5,
                              totalPages = 1, totalItems = 5\<rparr>)
   \<and> search_text dot_search = ''.''
   \<and> filter (spec_matches ''.'') seed_books = [seed_books ! 0, seed_books ! 3]
   \<and> (\<exists>m. regex_i ref_libs (search_text dot_search) = Some m
          \<and> (5::int) = int (length (filter (\<lambda>b. m (title b) \<or> m (author b)) (books seeded))))"
proof -
  have e: "getAllBooks ref_libs seeded dot_search =
     Responded 200 (BookPage \<lparr>data = seed_books, page = 1, limit = 5,
                              totalPages = 1, totalItems = 5\<rparr>)"
    by code_simp
  have s: "search_text dot_search = ''.''"
    by code_simp
  have f: "filter (spec_matches ''.'') seed_books = [seed_books ! 0, seed_books ! 3]"
    by code_simp
  from search_text_is_the_pattern [OF e] s e f show ?thesis by auto
qed

text \<open>
  C6, as the claim has it, fails: a \<open>limit\<close> of \<open>0\<close> and a \<open>limit\<close> that is no number
  become the default 5, not 1 (the default is taken for every falsy result of
  \<open>parseInt\<close>, and only then is the minimum 1 applied).
\<close>

theorem limit_coercion_counterexample:
  "map_option limit (sent_listing (getAllBooks ref_libs seeded limit_zero)) = Some 5
   \<and> map_option limit (sent_listing (getAllBooks ref_libs seeded limit_text)) = Some 5
   \<and> map_option (length \<circ> data) (sent_listing (getAllBooks ref_libs seeded limit_zero)) = Some 5"
  by code_simp


text \<open>
  C6, amended. \<open>page\<close> and \<open>limit\<close> are read with \<open>parseInt\<close>. A \<open>page\<close> that is
  absent, has no leading integer, is zero or is negative lists as \<open>page = 1\<close>. A
  \<open>limit\<close> that is absent, has no leading integer or is zero lists as the default
  \<open>limit = 5\<close>; a negative \<open>limit\<close> lists as \<open>limit = 1\<close>. A positive value below
  \<open>2^53\<close> is kept. With the store answering and the numbers exact, the listing is then
  sent with status 200: \<open>page\<close> and \<open>limit\<close> are those values, both at least 1, and
  \<open>data\<close> is the slice of the matching books, newest first, that starts after
  \<open>(page - 1) * limit\<close> books and has at most \<open>limit\<close> books.
\<close>

theorem listing_coercion:
  assumes "connected st"
      and "compile_filter L (search_filter req) = Some p"
      and "coerced (parseInt (query req ''page'')) 1 = Some pg"
      and "coerced (parseInt (query req ''limit'')) 5 = Some lm"
      and "isSafeInteger ((pg - 1) * lm)"
      and "isSafeInteger (int (length (filter p (books st))))"
  shows "getAllBooks L st req =
           Responded 200
             (BookPage \<lparr>data = take (nat lm) (drop (nat ((pg - 1) * lm))
                                 (sort_key (\<lambda>b. - int (createdAt b)) (filter p (books st)))),
                        page = pg, limit = lm,
                        totalPages = ceil_div (length (filter p (books st))) lm,
                        totalItems = int (length (filter p (books st)))\<rparr>)
       \<and> 1 \<le> pg \<and> 1 \<le> lm"
proof -
  have pg: "Math_max (or_default (parseInt (query req ''page'')) 1) 1 = Exact pg"
    by (rule coerced_is_the_code [OF assms(3)]) simp
  have lm: "Math_max (or_default (parseInt (query req ''limit'')) 5) 1 = Exact lm"
    by (rule coerced_is_the_code [OF assms(4)]) simp
  from Math_max_at_least [OF pg] Math_max_at_least [OF lm]
    getAllBooks_exact [OF assms(1,2) pg lm assms(5,6)]
  show ?thesis by simp
qed

text \<open>
  The seeded books with \<open>page=0\<close> and \<open>limit=-3\<close>: page 1 of pages of one book. With
  \<open>limit=0\<close>: the five books on one page of five.
\<close>

theorem listing_coercion_witness:
  "parseInt (query odd_paging ''page'') = Exact 0
   \<and> parseInt (query odd_paging ''limit'') = Exact (- 3)
   \<and> getAllBooks ref_libs seeded odd_paging =
       Responded 200
         (BookPage \<lparr>data = [seed_books ! 0], page = 1, limit = 1,
                    totalPages = 5, totalItems = 5\<rparr>)
   \<and> parseInt (query limit_zero ''page'') = NaN
   \<and> parseInt (query limit_zero ''limit'') = Exact 0
   \<and> getAllBooks ref_libs seeded limit_zero =
       Responded 200
         (BookPage \<lparr>data = seed_books, page = 1, limit = 5,
                    totalPages = 1, totalItems = 5\<rparr>)"
proof -
  have c: "connected seeded"
    by (simp add: seeded_def)
  have f1: "compile_filter ref_libs (search_filter odd_paging) = Some (\<lambda>b. True)"
    by (simp add: compile_search_filter odd_paging_def request0_def)
  have f2: "compile_filter ref_libs (search_filter limit_zero) = Some (\<lambda>b. True)"
    by (simp add: compile_search_filter limit_zero_def request0_def)
  have p1: "parseInt (query odd_paging ''page'') = Exact 0"
    by code_simp
  have l1: "parseInt (query odd_paging ''limit'') = Exact (- 3)"
    by code_simp
  have p2: "parseInt (query limit_zero ''page'') = NaN"
    by code_simp
  have l2: "parseInt (query limit_zero ''limit'') = Exact 0"
    by code_simp
  have cp1: "coerced (parseInt (query odd_paging ''page'')) 1 = Some 1"
    by (simp add: p1 coerced_def)
  have cl1: "coerced (parseInt (query odd_paging ''limit'')) 5 = Some 1"
    by (simp add: l1 coerced_def)
  have cp2: "coerced (parseInt (query limit_zero ''page'')) 1 = Some 1"
    by (simp add: p2 coerced_def)
  have cl2: "coerced (parseInt (query limit_zero ''limit'')) 5 = Some 5"
    by (simp add: l2 coerced_def)
  have s1: "isSafeInteger ((1 - 1) * 1)" and s2: "isSafeInteger ((1 - 1) * 5)"
    by (simp_all add: isSafeInteger_def)
  have n: "isSafeInteger (int (length (filter (\<lambda>b. True) (books seeded))))"
    by (simp add: isSafeInteger_def seeded_def seed_books_def)
  have v1: "take (nat 1) (drop (nat ((1 - 1) * 1))
              (sort_key (\<lambda>b. - int (createdAt b)) (filter (\<lambda>b. True) (books seeded))))
            = [seed_books ! 0]"
    by code_simp
  have v2: "take (nat 5) (drop (nat ((1 - 1) * 5))
              (sort_key (\<lambda>b. - int (createdAt b)) (filter (\<lambda>b. True) (books seeded))))
            = seed_books"
    by code_simp
  have t1: "ceil_div (length (filter (\<lambda>b. True) (books seeded))) 1 = 5"
    by code_simp
  have t2: "ceil_div (length (filter (\<lambda>b. True) (books seeded))) 5 = 1"
    by code_simp
  have k: "int (length (filter (\<lambda>b. True) (books seeded))) = 5"
    by code_simp
  from listing_coercion [OF c f1 cp1 cl1 s1 n]
  have a: "getAllBooks ref_libs seeded odd_paging =
       Responded 200
         (BookPage \<lparr>data = [seed_books ! 0], page = 1, limit = 1,
                    totalPages = 5, totalItems = 5\<rparr>)"
    unfolding v1 t1 k by simp
  from listing_coercion [OF c f2 cp2 cl2 s2 n]
  have b: "getAllBooks ref_libs seeded limit_zero =
       Responded 200
         (BookPage \<lparr>data = seed_books, page = 1, limit = 5,
                    totalPages = 1, totalItems = 5\<rparr>)"
    unfolding v2 t2 k by simp
  from a b p1 l1 p2 l2 show ?thesis by simp
qed

text \<open>
  C7. With the store answering and the numbers exact, the listing is sent with status
  200; its \<open>totalItems\<close> is the number of all stored books that satisfy the filter of
  the search text (every book when the trimmed text is empty, otherwise the books whose
  title or author the store's matcher accepts for the text; where the matcher is the
  case-insensitive substring test, the books that contain the text), whatever the page;
  and its \<open>totalPages\<close> is the ceiling of \<open>totalItems / limit\<close> for the coerced
  \<open>limit\<close>, which is at least 1: the least number of pages of that size that hold all
  the items. Five items with \<open>limit = 2\<close> give three pages.
\<close>

theorem listing_totals:
  assumes "connected st"
      and "Math_max (or_default (parseInt (query req ''page'')) 1) 1 = Exact pg"
      and "Math_max (or_default (parseInt (query req ''limit'')) 5) 1 = Exact lm"
      and "isSafeInteger ((pg - 1) * lm)"
      and "s = (case query req ''search'' of None \<Rightarrow> [] | Some x \<Rightarrow> trim x)"
      and "s \<noteq> [] \<longrightarrow> regex_i L s = Some m"
      and "matching = filter (\<lambda>b. s = [] \<or> m (title b) \<or> m (author b)) (books st)"
      and "isSafeInteger (int (length matching))"
  shows "\<exists>l. getAllBooks L st req = Responded 200 (BookPage l)
           \<and> totalItems l = int (length matching)
           \<and> limit l = lm \<and> 1 \<le> lm
           \<and> totalPages l = \<lceil>real_of_int (totalItems l) / real_of_int (limit l)\<rceil>
           \<and> (totalPages l - 1) * limit l < totalItems l
           \<and> totalItems l \<le> totalPages l * limit l
           \<and> (totalItems l = 5 \<and> limit l = 2 \<longrightarrow> totalPages l = 3)
           \<and> (s \<noteq> [] \<and> (\<forall>x. m x = contains_ci s x) \<longrightarrow>
                totalItems l = int (length (filter (spec_matches s) (books st))))"
proof -
  define p :: "book \<Rightarrow> bool" where "p = (\<lambda>b. s = [] \<or> m (title b) \<or> m (author b))"
  have f: "compile_filter L (search_filter req) = Some p"
    using assms(5,6) by (auto simp: compile_search_filter p_def)
  have mt: "matching = filter p (books st)"
    by (simp add: assms(7) p_def)
  define l where "l = \<lparr>data = take (nat lm) (drop (nat ((pg - 1) * lm))
                                 (sort_key (\<lambda>b. - int (createdAt b)) (filter p (books st)))),
                        page = pg, limit = lm,
                        totalPages = ceil_div (length (filter p (books st))) lm,
                        totalItems = int (length (filter p (books st)))\<rparr>"
  have g: "getAllBooks L st req = Responded 200 (BookPage l)"
    unfolding l_def
    using assms(8) by (intro getAllBooks_exact [OF assms(1) f assms(2,3,4)]) (simp add: mt)
  have ti: "totalItems l = int (length matching)"
    by (simp add: l_def mt)
  have ll: "limit l = lm"
    by (simp add: l_def)
  have l1: "1 \<le> lm"
    by (rule Math_max_at_least [OF assms(3)])
  have tp: "totalPages l = ceil_div (length matching) lm"
    by (simp add: l_def mt)
  have c: "totalPages l = \<lceil>real_of_int (totalItems l) / real_of_int (limit l)\<rceil>"
    by (simp add: tp ti ll ceil_div_real)
  from ceil_div_bounds [OF l1, of "length matching"]
  have b: "(totalPages l - 1) * limit l < totalItems l \<and> totalItems l \<le> totalPages l * limit l"
    by (simp add: tp ti ll)
  have e: "totalItems l = 5 \<and> limit l = 2 \<longrightarrow> totalPages l = 3"
  proof
    assume a: "totalItems l = 5 \<and> limit l = 2"
    with c have "totalPages l = \<lceil>(5::real) / 2\<rceil>" by simp
    then show "totalPages l = 3" by simp
  qed
  have sp: "s \<noteq> [] \<and> (\<forall>x. m x = contains_ci s x) \<longrightarrow>
                totalItems l = int (length (filter (spec_matches s) (books st)))"
  proof
    assume a: "s \<noteq> [] \<and> (\<forall>x. m x = contains_ci s x)"
    then have "p = spec_matches s"
      by (auto simp: p_def spec_matches_def fun_eq_iff)
    then show "totalItems l = int (length (filter (spec_matches s) (books st)))"
      by (simp add: ti mt)
  qed
  from g ti ll l1 c b e sp show ?thesis by blast
qed

text \<open>
  The five seeded books two to a page, and the search \<open>Gatsby\<close> (sent with spaces
  around) two to a page.
\<close>

theorem listing_totals_witness:
  "getAllBooks ref_libs seeded limit_two =
     Responded 200 (BookPage \<lparr>data = take 2 seed_books, page = 1, limit = 2,
                              totalPages = 3, totalItems = 5\<rparr>)
   \<and> getAllBooks ref_libs seeded gatsby_search =
     Responded 200 (BookPage \<lparr>data = [seed_books ! 3], page = 1, limit = 2,
                              totalPages = 1, totalItems = 1\<rparr>)
   \<and> filter (spec_matches ''gatsby'') (books seeded) = [seed_books ! 3]
   \<and> (\<exists>l. getAllBooks ref_libs seeded limit_two = Responded 200 (BookPage l)
          \<and> totalItems l = int (length (books seeded)) \<and> totalPages l = 3)
   \<and> (\<exists>l. getAllBooks ref_libs seeded gatsby_search = Responded 200 (BookPage l)
          \<and> totalItems l = int (length (filter (spec_matches ''Gatsby'') (books seeded))))"
proof -
  have c: "connected seeded"
    by (simp add: seeded_def)
  have e1: "getAllBooks ref_libs seeded limit_two =
     Responded 200 (BookPage \<lparr>data = take 2 seed_books, page = 1, limit = 2,
                              totalPages = 3, totalItems = 5\<rparr>)"
    by code_simp
  have e2: "getAllBooks ref_libs seeded gatsby_search =
     Responded 200 (BookPage \<lparr>data = [seed_books ! 3], page = 1, limit = 2,
                              totalPages = 1, totalItems = 1\<rparr>)"
    by code_simp
  have e3: "filter (spec_matches ''gatsby'') (books seeded) = [seed_books ! 3]"
    by code_simp
  have p1: "Math_max (or_default (parseInt (query limit_two ''page'')) 1) 1 = Exact 1"
    by code_simp
  have l1: "Math_max (or_default (parseInt (query limit_two ''limit'')) 5) 1 = Exact 2"
    by code_simp
  have p2: "Math_max (or_default (parseInt (query gatsby_search ''page'')) 1) 1 = Exact 1"
    by code_simp
  have l2: "Math_max (or_default (parseInt (query gatsby_search ''limit'')) 5) 1 = Exact 2"
    by code_simp
  have sk: "isSafeInteger ((1 - 1) * 2)"
    by (simp add: isSafeInteger_def)
  have s1: "[] = (case query limit_two ''search'' of None \<Rightarrow> [] | Some x \<Rightarrow> trim x)"
    by (simp add: limit_two_def request0_def)
  have s2: "''Gatsby'' = (case query gatsby_search ''search'' of None \<Rightarrow> [] | Some x \<Rightarrow> trim x)"
    by code_simp
  have r1: "([]::string) \<noteq> [] \<longrightarrow> regex_i ref_libs [] = Some (\<lambda>x. False)"
    by simp
  have r2: "''Gatsby'' \<noteq> [] \<longrightarrow> regex_i ref_libs ''Gatsby'' = Some (contains_ci ''Gatsby'')"
    by (simp add: ref_libs_def ref_regex_i_def plain_char_def)
  have m1: "books seeded
              = filter (\<lambda>b. ([]::string) = [] \<or> (\<lambda>x. False) (title b) \<or> (\<lambda>x. False) (author b))
                  (books seeded)"
    by simp
  have n1: "isSafeInteger (int (length (books seeded)))"
    by (simp add: isSafeInteger_def seeded_def seed_books_def)
  have n2: "isSafeInteger (int (length (filter (\<lambda>b. ''Gatsby'' = [] \<or> contains_ci ''Gatsby'' (title b)
                                  \<or> contains_ci ''Gatsby'' (author b)) (books seeded))))"
  proof -
    have "length (books seeded) = 5"
      by (simp add: seeded_def seed_books_def)
    with length_filter_le [of "\<lambda>b. ''Gatsby'' = [] \<or> contains_ci ''Gatsby'' (title b)
                                  \<or> contains_ci ''Gatsby'' (author b)" "books seeded"]
    have "length (filter (\<lambda>b. ''Gatsby'' = [] \<or> contains_ci ''Gatsby'' (title b)
                                  \<or> contains_ci ''Gatsby'' (author b)) (books seeded)) \<le> 5"
      by (simp only:)
    then show ?thesis
      by (simp add: isSafeInteger_def)
  qed
  from listing_totals [OF c p1 l1 sk s1 r1 m1 n1] e1
  have a: "\<exists>l. getAllBooks ref_libs seeded limit_two = Responded 200 (BookPage l)
          \<and> totalItems l = int (length (books seeded)) \<and> totalPages l = 3"
    by auto
  from listing_totals [OF c p2 l2 sk s2 r2 refl n2]
  have b: "\<exists>l. getAllBooks ref_libs seeded gatsby_search = Responded 200 (BookPage l)
          \<and> totalItems l = int (length (filter (spec_matches ''Gatsby'') (books seeded)))"
    by auto
  from e1 e2 e3 a b show ?thesis by blast
qed

text \<open>
  C9, as the claim has it, fails: a request whose \<open>title\<close>, \<open>author\<close> and \<open>year\<close>
  are all truthy can still fail validation. A title of one space passes the handler's
  check, is trimmed to the empty string by the schema and refused by \<open>required\<close>; the
  \<open>catch\<close> for a validation or save error answers 400
  \<open>{success: false, message: "Invalid book data"}\<close> and nothing is stored.
\<close>

theorem createBook_blank_title_counterexample:
  "truthy (body blank_title ''title'') \<and> truthy (body blank_title ''author'')
   \<and> truthy (body blank_title ''year'')
   \<and> createBook ref_libs 9 seeded blank_title
       = (Responded 400 (Failure ''Invalid book data''), seeded)"
  by code_simp

text \<open>
  C9, amended. Creation is refused with 400
  \<open>{message: "Title, author, and year are required"}\<close> whenever \<open>title\<close>, \<open>author\<close>
  or \<open>year\<close> is missing or falsy; a missing \<open>year\<close> and \<open>year = 0\<close> are refused this
  way, though the schema leaves \<open>year\<close> optional. A request whose three fields are truthy
  is saved and answered with 201, or is refused by the schema or the store with 400
  \<open>{success: false, message: "Invalid book data"}\<close>: for a title and an author that are
  strings and a year that is a number, it is refused exactly when the title or the author
  is empty after trimming or the store does not answer. Every refusal leaves the store
  unchanged.
\<close>

theorem createBook_outcomes:
  "(\<not> truthy (body req ''title'') \<or> \<not> truthy (body req ''author'')
      \<or> \<not> truthy (body req ''year'')
      \<longrightarrow> createBook L now st req
            = (Responded 400 (Message ''Title, author, and year are required''), st))
   \<and> (body req ''year'' = None \<or> body req ''year'' = Some (JNum 0)
      \<longrightarrow> createBook L now st req
            = (Responded 400 (Message ''Title, author, and year are required''), st))
   \<and> (truthy (body req ''title'') \<and> truthy (body req ''author'') \<and> truthy (body req ''year'')
      \<longrightarrow> (\<exists>b. createBook L now st req
                   = (Responded 201 (BookData b),
                      st\<lparr>books := books st @ [b], next_id := Suc (next_id st)\<rparr>))
          \<or> createBook L now st req = (Responded 400 (Failure ''Invalid book data''), st))
   \<and> (\<forall>t a y. body req ''title'' = Some (JStr t) \<and> t \<noteq> []
         \<and> body req ''author'' = Some (JStr a) \<and> a \<noteq> []
         \<and> body req ''year'' = Some (JNum y) \<and> y \<noteq> 0
      \<longrightarrow> createBook L now st req
            = (if trim t \<noteq> [] \<and> trim a \<noteq> [] \<and> connected st
               then (Responded 201
                       (BookData \<lparr>book_id = next_id st, title = trim t, author = trim a,
                                  year = Some y, createdAt = now, updatedAt = now\<rparr>),
                     st\<lparr>books := books st @
                          [\<lparr>book_id = next_id st, title = trim t, author = trim a,
                            year = Some y, createdAt = now, updatedAt = now\<rparr>],
                        next_id := Suc (next_id st)\<rparr>)
               else (Responded 400 (Failure ''Invalid book data''), st)))"
  by (auto simp: createBook_def Book_save_def required_string_def optional_number_def Let_def
           split: option.splits prod.splits)

text \<open>Dune without a year, with the year 0, with a blank title, and as it should be.\<close>

theorem createBook_outcomes_witness:
  "createBook ref_libs 9 seeded dune_no_year
     = (Responded 400 (Message ''Title, author, and year are required''), seeded)
   \<and> createBook ref_libs 9 seeded dune_year_zero
     = (Responded 400 (Message ''Title, author, and year are required''), seeded)
   \<and> createBook ref_libs 9 seeded blank_title
     = (Responded 400 (Failure ''Invalid book data''), seeded)
   \<and> createBook ref_libs 9 seeded dune
     = (Responded 201
          (BookData \<lparr>book_id = 6, title = ''Dune'', author = ''Frank Herbert'',
                     year = Some 1965, createdAt = 9, updatedAt = 9\<rparr>),
        seeded\<lparr>books := books seeded @
                  [\<lparr>book_id = 6, title = ''Dune'', author = ''Frank Herbert'',
                    year = Some 1965, createdAt = 9, updatedAt = 9\<rparr>],
                next_id := 7\<rparr>)"
proof -
  have y1: "body dune_no_year ''year'' = None"
    by (simp add: dune_no_year_def request0_def)
  have y2: "body dune_year_zero ''year'' = Some (JNum 0)"
    by (simp add: dune_year_zero_def request0_def)
  have b: "body blank_title ''title'' = Some (JStr '' '') \<and> '' '' \<noteq> []
         \<and> body blank_title ''author'' = Some (JStr ''Frank Herbert'') \<and> ''Frank Herbert'' \<noteq> []
         \<and> body blank_title ''year'' = Some (JNum 1965) \<and> (1965::rat) \<noteq> 0"
    by (simp add: blank_title_def request0_def)
  have d: "body dune ''title'' = Some (JStr ''Dune'') \<and> ''Dune'' \<noteq> []
         \<and> body dune ''author'' = Some (JStr ''Frank Herbert'') \<and> ''Frank Herbert'' \<noteq> []
         \<and> body dune ''year'' = Some (JNum 1965) \<and> (1965::rat) \<noteq> 0"
    by (simp add: dune_def request0_def)
  have t1: "trim '' '' = []" and t2: "trim ''Dune'' = ''Dune''"
    and t3: "trim ''Frank Herbert'' = ''Frank Herbert''"
    by code_simp+
  have c: "connected seeded" and n: "next_id seeded = 6"
    by (simp_all add: seeded_def)
  from createBook_outcomes [of dune_no_year ref_libs 9 seeded] y1
  have 1: "createBook ref_libs 9 seeded dune_no_year
     = (Responded 400 (Message ''Title, author, and year are required''), seeded)"
    by blast
  from createBook_outcomes [of dune_year_zero ref_libs 9 seeded] y2
  have 2: "createBook ref_libs 9 seeded dune_year_zero
     = (Responded 400 (Message ''Title, author, and year are required''), seeded)"
    by blast
  from createBook_outcomes [of blank_title ref_libs 9 seeded] b
  have "createBook ref_libs 9 seeded blank_title
     = (if trim '' '' \<noteq> [] \<and> trim ''Frank Herbert'' \<noteq> [] \<and> connected seeded
        then (Responded 201
                (BookData \<lparr>book_id = next_id seeded, title = trim '' '',
                           author = trim ''Frank Herbert'',
                           year = Some 1965, createdAt = 9, updatedAt = 9\<rparr>),
              seeded\<lparr>books := books seeded @
                   [\<lparr>book_id = next_id seeded, title = trim '' '',
                     author = trim ''Frank Herbert'',
                     year = Some 1965, createdAt = 9, updatedAt = 9\<rparr>],
                 next_id := Suc (next_id seeded)\<rparr>)
        else (Responded 400 (Failure ''Invalid book data''), seeded))"
    by blast
  then have 3: "createBook ref_libs 9 seeded blank_title
     = (Responded 400 (Failure ''Invalid book data''), seeded)"
    by (simp add: t1)
  from createBook_outcomes [of dune ref_libs 9 seeded] d
  have "createBook ref_libs 9 seeded dune
     = (if trim ''Dune'' \<noteq> [] \<and> trim ''Frank Herbert'' \<noteq> [] \<and> connected seeded
        then (Responded 201
                (BookData \<lparr>book_id = next_id seeded, title = trim ''Dune'',
                           author = trim ''Frank Herbert'',
                           year = Some 1965, createdAt = 9, updatedAt = 9\<rparr>),
              seeded\<lparr>books := books seeded @
                   [\<lparr>book_id = next_id seeded, title = trim ''Dune'',
                     author = trim ''Frank Herbert'',
                     year = Some 1965, createdAt = 9, updatedAt = 9\<rparr>],
                 next_id := Suc (next_id seeded)\<rparr>)
        else (Responded 400 (Failure ''Invalid book data''), seeded))"
    by blast
  then have 4: "createBook ref_libs 9 seeded dune
     = (Responded 201
          (BookData \<lparr>book_id = 6, title = ''Dune'', author = ''Frank Herbert'',
                     year = Some 1965, createdAt = 9, updatedAt = 9\<rparr>),
        seeded\<lparr>books := books seeded @
                  [\<lparr>book_id = 6, title = ''Dune'', author = ''Frank Herbert'',
                    year = Some 1965, createdAt = 9, updatedAt = 9\<rparr>],
                next_id := 7\<rparr>)"
    by (simp add: t2 t3 c n)
  from 1 2 3 4 show ?thesis by simp
qed

text \<open>
  C10. Two create-book requests whose bodies agree on \<open>title\<close>, \<open>author\<close> and
  \<open>year\<close> get the same response and leave the same store, whatever else the bodies hold:
  no other field of the body reaches the created record.
\<close>

theorem createBook_reads_three_fields:
  assumes "body r1 ''title'' = body r2 ''title''"
      and "body r1 ''author'' = body r2 ''author''"
      and "body r1 ''year'' = body r2 ''year''"
  shows "createBook L now st r1 = createBook L now st r2"
  using assms by (simp add: createBook_def)

theorem createBook_reads_three_fields_witness:
  "body dune ''title'' = body dune_extra ''title''
   \<and> body dune ''author'' = body dune_extra ''author''
   \<and> body dune ''year'' = body dune_extra ''year''
   \<and> body dune ''role'' \<noteq> body dune_extra ''role''
   \<and> createBook ref_libs 9 seeded dune = createBook ref_libs 9 seeded dune_extra
   \<and> fst (createBook ref_libs 9 seeded dune_extra)
       = Responded 201 (BookData \<lparr>book_id = 6, title = ''Dune'', author = ''Frank Herbert'',
                                  year = Some 1965, createdAt = 9, updatedAt = 9\<rparr>)"
proof -
  have 1: "body dune ''title'' = body dune_extra ''title''"
    by (simp add: dune_def dune_extra_def request0_def)
  have 2: "body dune ''author'' = body dune_extra ''author''"
    by (simp add: dune_def dune_extra_def request0_def)
  have 3: "body dune ''year'' = body dune_extra ''year''"
    by (simp add: dune_def dune_extra_def request0_def)
  have 4: "body dune ''role'' \<noteq> body dune_extra ''role''"
    by (simp add: dune_def dune_extra_def request0_def)
  have 5: "fst (createBook ref_libs 9 seeded dune_extra)
       = Responded 201 (BookData \<lparr>book_id = 6, title = ''Dune'', author = ''Frank Herbert'',
                                  year = Some 1965, createdAt = 9, updatedAt = 9\<rparr>)"
    by code_simp
  from createBook_reads_three_fields [OF 1 2 3, of ref_libs 9 seeded] 1 2 3 4 5
  show ?thesis by blast
qed

end
